theory Spec2Isabelle
  imports Main "HOL-Library.Char_ord" "HOL-Library.List_Lexorder"
begin

section \<open>Go values\<close>

text \<open>
  A Go \<open>string\<close> is a byte sequence, modelled by \<open>string\<close> (a list of 8-bit characters).
  With \<open>Char_ord\<close> and \<open>List_Lexorder\<close> the order on \<open>string\<close> is the bytewise
  lexicographic one, which is the order \<open>sort.Strings\<close> sorts by.

  A Go \<open>map[string]V\<close> is modelled by an association list with pairwise distinct keys.
  The order of the list is the order in which a \<open>range\<close> over the map visits its
  entries, which Go leaves unspecified; \<open>len\<close> is \<open>length\<close>. A nil map and an empty
  map (the source only takes their \<open>len\<close> and ranges over them) are both \<open>[]\<close>.
\<close>

type_synonym 'v gomap = "(string \<times> 'v) list"

definition wf_map :: "'v gomap \<Rightarrow> bool" where
  "wf_map m = distinct (map fst m)"

text \<open>\<open>for k := range m { keys = append(keys, k) }\<close>\<close>

definition range_keys :: "'v gomap \<Rightarrow> string list" where
  "range_keys m = map fst m"

text \<open>\<open>v, ok := m[k]\<close>\<close>

definition lookup :: "'v gomap \<Rightarrow> string \<Rightarrow> 'v option" where
  "lookup m k = map_of m k"

text \<open>\<open>m[k]\<close> on a map of strings: the zero value \<open>""\<close> for a missing key.\<close>

definition index_string :: "string gomap \<Rightarrow> string \<Rightarrow> string" where
  "index_string m k = (case lookup m k of Some v \<Rightarrow> v | None \<Rightarrow> [])"

text \<open>\<open>m[k]\<close> on a map of slices or of maps: the nil slice or nil map for a missing key.\<close>

definition index_list :: "'a list gomap \<Rightarrow> string \<Rightarrow> 'a list" where
  "index_list m k = (case lookup m k of Some v \<Rightarrow> v | None \<Rightarrow> [])"

text \<open>\<open>delete(m, k)\<close>\<close>

definition delete :: "'v gomap \<Rightarrow> string \<Rightarrow> 'v gomap" where
  "delete m k = filter (\<lambda>kv. fst kv \<noteq> k) m"

text \<open>\<open>strings.Join(elems, sep)\<close>\<close>

fun strings_Join :: "string list \<Rightarrow> string \<Rightarrow> string" where
  "strings_Join [] sep = []"
| "strings_Join [x] sep = x"
| "strings_Join (x # y # ys) sep = x @ sep @ strings_Join (y # ys) sep"

text \<open>
  Modelled from the spec: \<open>utils.SlicesContains\<close> (server/utils) is not among the
  sources. The validator uses it for the spec's membership tests ("shell must belong to
  a fixed external allow-list", "value and command are mutually exclusive"): it tells
  whether the slice holds the string.
\<close>

definition SlicesContains :: "string list \<Rightarrow> string \<Rightarrow> bool" where
  "SlicesContains slice v = (v \<in> set slice)"

section \<open>Constants of the package\<close>

abbreviation (input) ExtraArgsKey :: string where "ExtraArgsKey \<equiv> ''extra_args''"
abbreviation (input) NameArgKey :: string where "NameArgKey \<equiv> ''name''"
abbreviation (input) CommandArgKey :: string where "CommandArgKey \<equiv> ''command''"
abbreviation (input) ValueArgKey :: string where "ValueArgKey \<equiv> ''value''"
abbreviation (input) OutputArgKey :: string where "OutputArgKey \<equiv> ''output''"
abbreviation (input) RunStepName :: string where "RunStepName \<equiv> ''run''"
abbreviation (input) PlanStepName :: string where "PlanStepName \<equiv> ''plan''"
abbreviation (input) ShowStepName :: string where "ShowStepName \<equiv> ''show''"
abbreviation (input) PolicyCheckStepName :: string where "PolicyCheckStepName \<equiv> ''policy_check''"
abbreviation (input) ApplyStepName :: string where "ApplyStepName \<equiv> ''apply''"
abbreviation (input) InitStepName :: string where "InitStepName \<equiv> ''init''"
abbreviation (input) EnvStepName :: string where "EnvStepName \<equiv> ''env''"
abbreviation (input) MultiEnvStepName :: string where "MultiEnvStepName \<equiv> ''multienv''"
abbreviation (input) ImportStepName :: string where "ImportStepName \<equiv> ''import''"
abbreviation (input) StateRmStepName :: string where "StateRmStepName \<equiv> ''state_rm''"
abbreviation (input) ShellArgKey :: string where "ShellArgKey \<equiv> ''shell''"

text \<open>
  Modelled from the spec: the output modes \<open>valid.PostProcessRunOutputShow\<close>,
  \<open>valid.PostProcessRunOutputHide\<close> and \<open>valid.PostProcessRunOutputStripRefreshing\<close>
  are declared in package \<open>valid\<close>, which is not among the sources. The spec fixes
  their values: "output modes show, hide, strip_refreshing".
\<close>

abbreviation (input) PostProcessRunOutputShow :: string where
  "PostProcessRunOutputShow \<equiv> ''show''"
abbreviation (input) PostProcessRunOutputHide :: string where
  "PostProcessRunOutputHide \<equiv> ''hide''"
abbreviation (input) PostProcessRunOutputStripRefreshing :: string where
  "PostProcessRunOutputStripRefreshing \<equiv> ''strip_refreshing''"

section \<open>The raw step\<close>

text \<open>
  \<open>type Step struct\<close>: \<open>Key\<close> is a \<open>*string\<close> (nil is \<open>None\<close>); the three other
  fields are maps.
\<close>

record Step =
  Key :: "string option"
  CommandMap :: "string gomap gomap"
  Map :: "string list gomap gomap"
  StringVal :: "string gomap"

text \<open>The zero value of \<open>Step\<close>.\<close>

definition zero_Step :: Step where
  "zero_Step = \<lparr>Key = None, CommandMap = [], Map = [], StringVal = []\<rparr>"

text \<open>
  Every error the package builds or passes on. A constructor stands for one
  \<open>fmt.Errorf\<close> format string and carries the arguments formatted into it, in the
  order of the call:
  \<^item> \<open>NotValidStepOmittedRun str\<close>: \<open>%q is not a valid step type, maybe you omitted the 'run' key\<close>
  \<^item> \<open>SingleKeyOnly n keys\<close>: \<open>step element can only contain a single key, found %d: %s\<close>
  \<^item> \<open>NotValidStep name\<close>: \<open>%q is not a valid step type\<close>
  \<^item> \<open>SingleExtraArgsOnly n keys\<close>: \<open>built-in steps only support a single extra_args key, found %d: %s\<close>
  \<^item> \<open>ExtraArgsOnlyFound k name\<close>: \<open>built-in steps only support a single extra_args key, found %q in step %s\<close>
  \<^item> \<open>AtLeastOneKey\<close>: \<open>step element must contain at least 1 key\<close>
  \<^item> \<open>EnvUnsupportedKey k\<close>: \<open>env steps only support keys "name", "value", "command" and "shell", found key %q\<close>
  \<^item> \<open>EnvNameMissing\<close>: \<open>env steps must have a "name" key set\<close>
  \<^item> \<open>EnvValueAndCommand\<close>: \<open>env steps only support one of the "value" or "command" keys, found both\<close>
  \<^item> \<open>EnvShellWithoutCommand\<close>: \<open>env steps only support "shell" key in combination with "command" key\<close>
  \<^item> \<open>CommandMissing name\<close>: \<open>%q step must have a "command" key set\<close>
  \<^item> \<open>RunOutputInvalid\<close>: \<open>run step "output" option must be one of "show", "hide", or "strip_refreshing"\<close>
  \<^item> \<open>MultiEnvOutputInvalid\<close>: \<open>multienv step "output" option must be "show" or "hide"\<close>
  \<^item> \<open>ShellUnsupported v allowed\<close>: \<open>run step "shell" value %q is not supported, supported values are: [%s]\<close>
  \<^item> \<open>ExtraKeys name keys\<close>: \<open>%q steps only support keys "command", "output" and "shell", found extra keys %q\<close>
  \<^item> \<open>StepEmpty\<close>: \<open>step element is empty\<close>
  \<^item> \<open>Mismatch t\<close>: the decoding capability's structural error for an attempt at type \<open>t\<close>.
\<close>

text \<open>
  The four Go types that \<open>unmarshalGeneric\<close> asks the decoding capability for:
  \<open>string\<close>, \<open>map[string]map[string][]string\<close>, \<open>map[string]map[string]string\<close> and
  \<open>map[string]string\<close>.
\<close>

datatype target = TString | TMapMapSlice | TMapMap | TMapString

datatype error =
    NotValidStepOmittedRun string
  | SingleKeyOnly nat string
  | NotValidStep string
  | SingleExtraArgsOnly nat string
  | ExtraArgsOnlyFound string string
  | AtLeastOneKey
  | EnvUnsupportedKey string
  | EnvNameMissing
  | EnvValueAndCommand
  | EnvShellWithoutCommand
  | CommandMissing string
  | RunOutputInvalid
  | MultiEnvOutputInvalid
  | ShellUnsupported string string
  | ExtraKeys string string
  | StepEmpty
  | Mismatch target

section \<open>Validate\<close>

definition validStepName :: "string \<Rightarrow> bool" where
  "validStepName stepName \<longleftrightarrow>
     stepName = InitStepName \<or>
     stepName = PlanStepName \<or>
     stepName = ApplyStepName \<or>
     stepName = EnvStepName \<or>
     stepName = MultiEnvStepName \<or>
     stepName = ShowStepName \<or>
     stepName = PolicyCheckStepName \<or>
     stepName = ImportStepName \<or>
     stepName = StateRmStepName"

text \<open>The closure \<open>validStep\<close>; \<open>None\<close> is the nil error.\<close>

definition validStep :: "string \<Rightarrow> error option" where
  "validStep str =
     (if \<not> validStepName str then Some (NotValidStepOmittedRun str) else None)"

text \<open>
  The closure \<open>extraArgs\<close>. \<open>extraArgs_body\<close> is the body of its loop
  \<open>for stepName, args := range elem\<close>, and \<open>extraArgs_loop\<close> the loop, which goes on
  to the next entry when the body does not return.
\<close>

definition extraArgs_body :: "string \<Rightarrow> string list gomap \<Rightarrow> error option" where
  "extraArgs_body stepName args =
     (if \<not> validStepName stepName then Some (NotValidStep stepName)
      else
        let argKeys = sort (range_keys args) in
        if length argKeys > 1
        then Some (SingleExtraArgsOnly (length argKeys) (strings_Join argKeys '',''))
        else
          (case List.find (\<lambda>k. k \<noteq> ExtraArgsKey) (range_keys args) of
             Some k \<Rightarrow> Some (ExtraArgsOnlyFound k stepName)
           | None \<Rightarrow> None))"

fun extraArgs_loop :: "string list gomap gomap \<Rightarrow> error option" where
  "extraArgs_loop [] = None"
| "extraArgs_loop ((stepName, args) # rest) =
     (case extraArgs_body stepName args of
        Some e \<Rightarrow> Some e
      | None \<Rightarrow> extraArgs_loop rest)"

definition extraArgs :: "string list gomap gomap \<Rightarrow> error option" where
  "extraArgs elem =
     (let keys = sort (range_keys elem) in
      if length keys > 1
      then Some (SingleKeyOnly (length keys) (strings_Join keys '',''))
      else extraArgs_loop elem)"

text \<open>
  The \<open>env\<close> case of the closure \<open>envOrRunOrMultiEnvStep\<close>. \<open>env_keys_loop\<close> is the
  loop \<open>for _, k := range argKeys\<close> over the sorted keys, with the flag
  \<open>foundNameKey\<close> as its state.
\<close>

fun env_keys_loop :: "string list \<Rightarrow> bool \<Rightarrow> error + bool" where
  "env_keys_loop [] foundNameKey = Inr foundNameKey"
| "env_keys_loop (k # ks) foundNameKey =
     (if k \<noteq> NameArgKey \<and> k \<noteq> CommandArgKey \<and> k \<noteq> ValueArgKey \<and> k \<noteq> ShellArgKey
      then Inl (EnvUnsupportedKey k)
      else env_keys_loop ks (if k = NameArgKey then True else foundNameKey))"

definition env_case :: "string gomap \<Rightarrow> error option" where
  "env_case args =
     (let argKeys = sort (range_keys args) in
      case env_keys_loop argKeys False of
        Inl e \<Rightarrow> Some e
      | Inr foundNameKey \<Rightarrow>
          if \<not> foundNameKey then Some EnvNameMissing
          else if SlicesContains argKeys ValueArgKey \<and> SlicesContains argKeys CommandArgKey
          then Some EnvValueAndCommand
          else if SlicesContains argKeys ShellArgKey \<and> \<not> SlicesContains argKeys CommandArgKey
          then Some EnvShellWithoutCommand
          else None)"

text \<open>
  The \<open>run\<close>/\<open>multienv\<close> case. The source copies \<open>args\<close> and deletes the keys it has
  checked from the copy; \<open>allowed\<close> is \<open>valid.AllowedRunShellValues\<close>, which package
  \<open>valid\<close> owns and which is a parameter here.
\<close>

definition output_check :: "string \<Rightarrow> string gomap \<Rightarrow> error option" where
  "output_check stepName args =
     (case lookup args OutputArgKey of
        Some v \<Rightarrow>
          if stepName = RunStepName \<and>
             \<not> (v = PostProcessRunOutputShow \<or> v = PostProcessRunOutputHide \<or>
                v = PostProcessRunOutputStripRefreshing)
          then Some RunOutputInvalid
          else if stepName = MultiEnvStepName \<and>
             \<not> (v = PostProcessRunOutputShow \<or> v = PostProcessRunOutputHide)
          then Some MultiEnvOutputInvalid
          else None
      | None \<Rightarrow> None)"

definition shell_check :: "string list \<Rightarrow> string gomap \<Rightarrow> error option" where
  "shell_check allowed args =
     (case lookup args ShellArgKey of
        Some v \<Rightarrow>
          if \<not> SlicesContains allowed v
          then Some (ShellUnsupported v (strings_Join allowed '', ''))
          else None
      | None \<Rightarrow> None)"

definition run_case :: "string list \<Rightarrow> string \<Rightarrow> string gomap \<Rightarrow> error option" where
  "run_case allowed stepName args0 =
     (if lookup args0 CommandArgKey = None then Some (CommandMissing stepName)
      else
        let args1 = delete args0 CommandArgKey in
        (case output_check stepName args1 of
           Some e \<Rightarrow> Some e
         | None \<Rightarrow>
             let args2 = delete args1 OutputArgKey in
             (case shell_check allowed args2 of
                Some e \<Rightarrow> Some e
              | None \<Rightarrow>
                  let args3 = delete args2 ShellArgKey in
                  if length args3 > 0
                  then Some (ExtraKeys stepName (strings_Join (sort (range_keys args3)) '',''))
                  else None)))"

definition envOrRunOrMultiEnvStep :: "string list \<Rightarrow> string gomap gomap \<Rightarrow> error option" where
  "envOrRunOrMultiEnvStep allowed elem =
     (let keys = sort (range_keys elem) in
      if length keys > 1
      then Some (SingleKeyOnly (length keys) (strings_Join keys '',''))
      else if length keys = 0 then Some AtLeastOneKey
      else
        let stepName = keys ! 0; args = index_list elem (keys ! 0) in
        if stepName = EnvStepName then env_case args
        else if stepName = RunStepName \<or> stepName = MultiEnvStepName
        then run_case allowed stepName args
        else Some (NotValidStep stepName))"

text \<open>The closure \<open>runOrMultiEnvStep\<close> and its loop \<open>for stepName := range elem\<close>.\<close>

fun runOrMultiEnvStep_loop :: "string list \<Rightarrow> error option" where
  "runOrMultiEnvStep_loop [] = None"
| "runOrMultiEnvStep_loop (stepName # rest) =
     (if \<not> (stepName = RunStepName \<or> stepName = MultiEnvStepName)
      then Some (NotValidStep stepName)
      else runOrMultiEnvStep_loop rest)"

definition runOrMultiEnvStep :: "string gomap \<Rightarrow> error option" where
  "runOrMultiEnvStep elem =
     (let keys = sort (range_keys elem) in
      if length keys > 1
      then Some (SingleKeyOnly (length keys) (strings_Join keys '',''))
      else runOrMultiEnvStep_loop (range_keys elem))"

text \<open>
  \<open>Validate\<close>. \<open>validation.Validate(v, validation.By(f))\<close> of ozzo-validation applies
  the rule function \<open>f\<close> to \<open>v\<close> and returns its error; none of the values passed here
  is itself validatable, so nothing else is checked.
\<close>

definition Validate :: "string list \<Rightarrow> Step \<Rightarrow> error option" where
  "Validate allowed s =
     (case Key s of
        Some k \<Rightarrow> validStep k
      | None \<Rightarrow>
          if length (Map s) > 0 then extraArgs (Map s)
          else if length (CommandMap s) > 0 then envOrRunOrMultiEnvStep allowed (CommandMap s)
          else if length (StringVal s) > 0 then runOrMultiEnvStep (StringVal s)
          else Some StepEmpty)"

section \<open>ToValid\<close>

text \<open>
  Modelled from the spec: \<open>valid.Step\<close> is declared in package \<open>valid\<close>, which is not
  among the sources. Its fields are the ones \<open>ToValid\<close> assigns, the spec's
  CanonicalStep: \<open>step_name\<close>, \<open>extra_args\<close>, \<open>run_command\<close>, \<open>env_var_name\<close>,
  \<open>env_var_value\<close>, \<open>output_mode\<close> and \<open>run_shell\<close>. A field the source leaves out
  of a struct literal holds its zero value: the empty string, the nil slice.
\<close>

record valid_Step =
  StepName :: string
  ExtraArgs :: "string list"
  RunCommand :: string
  EnvVarName :: string
  EnvVarValue :: string
  Output :: string
  RunShell :: string

definition zero_valid_Step :: valid_Step where
  "zero_valid_Step =
     \<lparr>StepName = [], ExtraArgs = [], RunCommand = [], EnvVarName = [], EnvVarValue = [],
      Output = [], RunShell = []\<rparr>"

text \<open>\<open>panic("step was not valid. This is a bug!")\<close>\<close>

datatype panic = StepWasNotValid

text \<open>The step that the loop over \<open>s.CommandMap\<close> builds and returns in its first pass.\<close>

definition command_step :: "string \<Rightarrow> string gomap \<Rightarrow> valid_Step" where
  "command_step stepName stepArgs =
     (let step = zero_valid_Step
        \<lparr>StepName := stepName,
         EnvVarName := index_string stepArgs NameArgKey,
         RunCommand := index_string stepArgs CommandArgKey,
         EnvVarValue := index_string stepArgs ValueArgKey,
         Output := index_string stepArgs OutputArgKey,
         RunShell := index_string stepArgs ShellArgKey\<rparr>
      in if StepName step = RunStepName \<and> Output step = []
         then step\<lparr>Output := PostProcessRunOutputShow\<rparr>
         else step)"

text \<open>
  \<open>ToValid\<close>. Each loop returns in its first pass, so it yields the entry that the
  \<open>range\<close> visits first; a map with \<open>len > 0\<close> has one.
\<close>

definition ToValid :: "Step \<Rightarrow> panic + valid_Step" where
  "ToValid s =
     (case Key s of
        Some k \<Rightarrow> Inr (zero_valid_Step\<lparr>StepName := k\<rparr>)
      | None \<Rightarrow>
          (case CommandMap s of
             (stepName, stepArgs) # _ \<Rightarrow> Inr (command_step stepName stepArgs)
           | [] \<Rightarrow>
               (case Map s of
                  (stepName, stepArgs) # _ \<Rightarrow>
                    Inr (zero_valid_Step
                      \<lparr>StepName := stepName, ExtraArgs := index_list stepArgs ExtraArgsKey\<rparr>)
                | [] \<Rightarrow>
                    (case StringVal s of
                       (stepName, v) # _ \<Rightarrow>
                         Inr (zero_valid_Step\<lparr>StepName := stepName, RunCommand := v\<rparr>)
                     | [] \<Rightarrow> Inl StepWasNotValid))))"

section \<open>Decoding and encoding\<close>

text \<open>
  Modelled from the spec: the generic structured value that the external decoding
  capability (YAML or JSON) works on, and that the external encoder produces: null, a
  scalar, a sequence, or a mapping from keys to values.
\<close>

datatype node =
    NNull
  | NBool bool
  | NNum int
  | NStr string
  | NSeq "node list"
  | NMap "(string \<times> node) list"

text \<open>
  The parameter \<open>unmarshal func(interface{}) error\<close> of \<open>unmarshalGeneric\<close>: the source
  calls it with a pointer to a \<open>string\<close>, to a \<open>map[string]map[string][]string\<close>, to
  a \<open>map[string]map[string]string\<close> and to a \<open>map[string]string\<close>. The record holds
  what each of these four calls gives: the error, or the value written through the
  pointer.
\<close>

record unmarshal_fn =
  to_string :: "error + string"
  to_map_map_slice :: "error + string list gomap gomap"
  to_map_map :: "error + string gomap gomap"
  to_map_string :: "error + string gomap"

text \<open>
  \<open>unmarshalGeneric\<close>: the receiver \<open>s\<close> is updated in place; the result is the error
  or the updated receiver.
\<close>

definition unmarshalGeneric :: "unmarshal_fn \<Rightarrow> Step \<Rightarrow> error + Step" where
  "unmarshalGeneric u s =
     (case to_string u of
        Inr singleString \<Rightarrow> Inr (s\<lparr>Key := Some singleString\<rparr>)
      | Inl _ \<Rightarrow>
          (case to_map_map_slice u of
             Inr step \<Rightarrow> Inr (s\<lparr>Map := step\<rparr>)
           | Inl _ \<Rightarrow>
               (case to_map_map u of
                  Inr envStep \<Rightarrow> Inr (s\<lparr>CommandMap := envStep\<rparr>)
                | Inl _ \<Rightarrow>
                    (case to_map_string u of
                       Inr runStep \<Rightarrow> Inr (s\<lparr>StringVal := runStep\<rparr>)
                     | Inl err \<Rightarrow> Inl err))))"

text \<open>
  \<open>marshalGeneric\<close> returns an \<open>interface{}\<close> and an error. \<open>marshalled\<close> is the
  value in the interface: one of the three maps, the key, or nil.
\<close>

datatype marshalled =
    OfStringVal "string gomap"
  | OfMap "string list gomap gomap"
  | OfCommandMap "string gomap gomap"
  | OfKey string
  | Nil

definition marshalGeneric :: "Step \<Rightarrow> marshalled \<times> error option" where
  "marshalGeneric s =
     (if length (StringVal s) \<noteq> 0 then (OfStringVal (StringVal s), None)
      else if length (Map s) \<noteq> 0 then (OfMap (Map s), None)
      else if length (CommandMap s) \<noteq> 0 then (OfCommandMap (CommandMap s), None)
      else (case Key s of
              Some k \<Rightarrow> (OfKey k, None)
            | None \<Rightarrow> (Nil, None)))"

text \<open>
  Modelled from the spec: the external encoder, which turns the value that
  \<open>marshalGeneric\<close> returns into a structured value again ("returns a generic structured
  value suitable for re-serialization by the same external capability"): a string as a
  string node, a slice as a sequence, a map as a mapping, nil as null. The model does
  not tell a nil map or slice inside a value from an empty one; the Go value that holds
  a recognized structured value has none that is nil.
\<close>

definition of_slice :: "('a \<Rightarrow> node) \<Rightarrow> 'a list \<Rightarrow> node" where
  "of_slice elem xs = NSeq (map elem xs)"

definition of_map :: "('a \<Rightarrow> node) \<Rightarrow> 'a gomap \<Rightarrow> node" where
  "of_map elem m = NMap (map (\<lambda>kv. (fst kv, elem (snd kv))) m)"

fun node_of :: "marshalled \<Rightarrow> node" where
  "node_of (OfStringVal m) = of_map NStr m"
| "node_of (OfMap m) = of_map (of_map (of_slice NStr)) m"
| "node_of (OfCommandMap m) = of_map (of_map NStr) m"
| "node_of (OfKey k) = NStr k"
| "node_of Nil = NNull"

text \<open>
  Encoding a step: \<open>MarshalYAML\<close> and \<open>MarshalJSON\<close> pass on the error of
  \<open>marshalGeneric\<close> or hand its value to the encoder.
\<close>

definition encode :: "Step \<Rightarrow> error + node" where
  "encode s =
     (case marshalGeneric s of
        (out, None) \<Rightarrow> Inr (node_of out)
      | (out, Some err) \<Rightarrow> Inl err)"

section \<open>The rule sets as the specification words them\<close>

text \<open>
  The specification's builtin, argument-free step names: "a step name requiring no
  user-supplied command (init, plan, apply, show, policy_check, import, state_rm)".
\<close>

definition builtin_step_names :: "string set" where
  "builtin_step_names =
     {''init'', ''plan'', ''apply'', ''show'', ''policy_check'', ''import'', ''state_rm''}"

text \<open>
  The specification's restriction of \<open>output\<close> per step kind: "run allows
  show|hide|strip_refreshing, multienv allows only show|hide".
\<close>

definition output_allowed :: "string \<Rightarrow> string \<Rightarrow> bool" where
  "output_allowed k v \<longleftrightarrow>
     k = ''run'' \<and> v \<in> {''show'', ''hide'', ''strip_refreshing''} \<or>
     k = ''multienv'' \<and> v \<in> {''show'', ''hide''}"

text \<open>
  The surplus of a \<open>run\<close> or \<open>multienv\<close> step: "any attribute key beyond command,
  output, shell".
\<close>

definition surplus_keys :: "string gomap \<Rightarrow> string list" where
  "surplus_keys args =
     filter (\<lambda>k. k \<noteq> ''command'' \<and> k \<noteq> ''output'' \<and> k \<noteq> ''shell'') (range_keys args)"

text \<open>
  The keys an \<open>env\<close> step does not allow: any key but "name, command, value, shell".
\<close>

definition env_unsupported_keys :: "string gomap \<Rightarrow> string list" where
  "env_unsupported_keys args =
     filter (\<lambda>k. k \<noteq> ''name'' \<and> k \<noteq> ''command'' \<and> k \<noteq> ''value'' \<and> k \<noteq> ''shell'')
       (range_keys args)"

text \<open>
  The serializer's precedence as the specification states it: "string-shorthand,
  attribute-map, extra-args-map, bare-name, in that fixed order".
\<close>

definition marshal_precedence_as_stated :: "Step \<Rightarrow> marshalled" where
  "marshal_precedence_as_stated s =
     (if StringVal s \<noteq> [] then OfStringVal (StringVal s)
      else if CommandMap s \<noteq> [] then OfCommandMap (CommandMap s)
      else if Map s \<noteq> [] then OfMap (Map s)
      else (case Key s of Some k \<Rightarrow> OfKey k | None \<Rightarrow> Nil))"

text \<open>
  Structured values are compared as values: the entries of a mapping have no order.
  \<open>canon\<close> puts the entries of every mapping in the order of their keys, and two
  nodes are the same value when their canonical forms are equal.
\<close>

primrec canon :: "node \<Rightarrow> node" where
  "canon NNull = NNull"
| "canon (NBool b) = NBool b"
| "canon (NNum n) = NNum n"
| "canon (NStr v) = NStr v"
| "canon (NSeq xs) = NSeq (map canon xs)"
| "canon (NMap kvs) = NMap (sort_key fst (map (map_prod id canon) kvs))"

definition same_value :: "node \<Rightarrow> node \<Rightarrow> bool" where
  "same_value x y \<longleftrightarrow> canon x = canon y"

text \<open>
  The four step shapes as the specification gives them: "(a) plain string, (b)
  mapping<name, mapping<string, sequence<string>>>, (c) mapping<name,
  mapping<string,string>>, (d) mapping<name, string>". A mapping has no key twice.
\<close>

definition is_string :: "node \<Rightarrow> bool" where
  "is_string x = (case x of NStr _ \<Rightarrow> True | _ \<Rightarrow> False)"

definition is_sequence :: "(node \<Rightarrow> bool) \<Rightarrow> node \<Rightarrow> bool" where
  "is_sequence elem x = (case x of NSeq xs \<Rightarrow> list_all elem xs | _ \<Rightarrow> False)"

definition is_mapping :: "(node \<Rightarrow> bool) \<Rightarrow> node \<Rightarrow> bool" where
  "is_mapping elem x =
     (case x of
        NMap kvs \<Rightarrow> distinct (map fst kvs) \<and> list_all (\<lambda>kv. elem (snd kv)) kvs
      | _ \<Rightarrow> False)"

fun has_shape :: "target \<Rightarrow> node \<Rightarrow> bool" where
  "has_shape TString x = is_string x"
| "has_shape TMapMapSlice x = is_mapping (is_mapping (is_sequence is_string)) x"
| "has_shape TMapMap x = is_mapping (is_mapping is_string) x"
| "has_shape TMapString x = is_mapping is_string x"

text \<open>
  A value is syntactically recognized when it has one of the four shapes. The empty
  mapping is not recognized: the specification's scenario 7 is "Input {} (no shape
  matches, nothing populated)".
\<close>

definition recognized :: "node \<Rightarrow> bool" where
  "recognized x \<longleftrightarrow>
     x \<noteq> NMap [] \<and>
     (has_shape TString x \<or> has_shape TMapMapSlice x \<or> has_shape TMapMap x \<or>
      has_shape TMapString x)"

text \<open>
  Modelled from the spec: what the external decoding capability does on the value \<open>x\<close>
  being decoded, "attempt to interpret this value as type T; fail with a structural
  mismatch if the shape does not match". \<open>interprets u x\<close> says that \<open>u\<close> holds the
  capability's four answers for \<open>x\<close>: an attempt that succeeds gives a Go value that
  holds \<open>x\<close> (a Go map has no key twice and keeps no order of its entries), and an
  attempt fails only when \<open>x\<close> has not the shape of the type attempted. The real
  decoders answer so on every recognized value. What they do on other values (the JSON
  decoder reads null into any type without an error, the YAML decoder reads a number
  into a string) is left open: no such value satisfies \<open>interprets\<close> with their
  answers.
\<close>

definition wf_map_map :: "'v gomap gomap \<Rightarrow> bool" where
  "wf_map_map m \<longleftrightarrow> wf_map m \<and> list_all (\<lambda>kv. wf_map (snd kv)) m"

definition interprets :: "unmarshal_fn \<Rightarrow> node \<Rightarrow> bool" where
  "interprets u x \<longleftrightarrow>
     (case to_string u of
        Inr v \<Rightarrow> x = NStr v
      | Inl _ \<Rightarrow> \<not> has_shape TString x) \<and>
     (case to_map_map_slice u of
        Inr m \<Rightarrow> wf_map_map m \<and> same_value (of_map (of_map (of_slice NStr)) m) x
      | Inl _ \<Rightarrow> \<not> has_shape TMapMapSlice x) \<and>
     (case to_map_map u of
        Inr m \<Rightarrow> wf_map_map m \<and> same_value (of_map (of_map NStr) m) x
      | Inl _ \<Rightarrow> \<not> has_shape TMapMap x) \<and>
     (case to_map_string u of
        Inr m \<Rightarrow> wf_map m \<and> same_value (of_map NStr m) x
      | Inl _ \<Rightarrow> \<not> has_shape TMapString x)"

text \<open>
  The shapes that an error names as attempted: a structural error names the type of the
  attempt that it reports, the validator's errors name none.
\<close>

definition shapes_named :: "error \<Rightarrow> target set" where
  "shapes_named e = (case e of Mismatch t \<Rightarrow> {t} | _ \<Rightarrow> {})"

section \<open>Maps\<close>

lemma lookup_delete: "k' \<noteq> k \<Longrightarrow> lookup (delete m k) k' = lookup m k'"
  by (induction m) (auto simp add: lookup_def delete_def)

lemma range_keys_delete: "range_keys (delete m k) = filter (\<lambda>x. x \<noteq> k) (range_keys m)"
  by (induction m) (auto simp add: range_keys_def delete_def)

lemma lookup_None_iff: "lookup m k = None \<longleftrightarrow> k \<notin> set (range_keys m)"
  by (simp add: lookup_def range_keys_def map_of_eq_None_iff)

lemma length_range_keys: "length (range_keys m) = length m"
  by (simp add: range_keys_def)

lemma sort_eq_Nil_iff: "sort xs = [] \<longleftrightarrow> xs = []"
  by (metis length_sort length_0_conv)

section \<open>The validator, case by case\<close>

text \<open>With one entry in \<open>CommandMap\<close>, the closure goes to the case of its key.\<close>

lemma single_entry:
  "envOrRunOrMultiEnvStep allowed [(k, args)] =
     (if k = ''env'' then env_case args
      else if k = ''run'' \<or> k = ''multienv'' then run_case allowed k args
      else Some (NotValidStep k))"
  by (simp add: envOrRunOrMultiEnvStep_def range_keys_def index_list_def lookup_def)

lemma Validate_CommandMap_single:
  assumes "Key s = None" and "Map s = []" and "CommandMap s = [(k, args)]"
  shows "Validate allowed s = envOrRunOrMultiEnvStep allowed [(k, args)]"
  using assms by (simp add: Validate_def)

text \<open>
  The steps of the \<open>run\<close>/\<open>multienv\<close> case read the keys \<open>output\<close> and \<open>shell\<close> from
  the copy after earlier deletions, which leave these keys as they were.
\<close>

lemma surplus_after_deletes:
  "range_keys (delete (delete (delete args ''command'') ''output'') ''shell'') = surplus_keys args"
  by (simp add: range_keys_delete surplus_keys_def conj_commute conj_left_commute)

lemma output_check_eq:
  assumes "k = ''run'' \<or> k = ''multienv''"
  shows "output_check k (delete args ''command'') =
     (case lookup args ''output'' of
        None \<Rightarrow> None
      | Some v \<Rightarrow> if output_allowed k v then None
                  else Some (if k = ''run'' then RunOutputInvalid else MultiEnvOutputInvalid))"
  using assms
  by (auto simp add: output_check_def lookup_delete output_allowed_def split: option.split)

lemma shell_check_eq:
  "shell_check allowed (delete (delete args ''command'') ''output'') =
     (case lookup args ''shell'' of
        None \<Rightarrow> None
      | Some v \<Rightarrow> if v \<in> set allowed then None
                  else Some (ShellUnsupported v (strings_Join allowed '', '')))"
  by (simp add: shell_check_def lookup_delete SlicesContains_def split: option.split)

lemma run_case_eq:
  "run_case allowed k args =
     (if lookup args ''command'' = None then Some (CommandMissing k)
      else case output_check k (delete args ''command'') of
        Some e \<Rightarrow> Some e
      | None \<Rightarrow>
         (case shell_check allowed (delete (delete args ''command'') ''output'') of
            Some e \<Rightarrow> Some e
          | None \<Rightarrow>
              if surplus_keys args \<noteq> []
              then Some (ExtraKeys k (strings_Join (sort (surplus_keys args)) '',''))
              else None))"
proof -
  have len: "length (delete (delete (delete args ''command'') ''output'') ''shell'') > 0
      \<longleftrightarrow> surplus_keys args \<noteq> []"
    using surplus_after_deletes [of args] length_range_keys
    by (metis length_greater_0_conv)
  show ?thesis
    unfolding run_case_def Let_def len surplus_after_deletes by (simp split: option.split)
qed

lemma run_case_None_iff:
  assumes "k = ''run'' \<or> k = ''multienv''"
  shows "run_case allowed k args = None \<longleftrightarrow>
     lookup args ''command'' \<noteq> None \<and>
     (\<forall>v. lookup args ''output'' = Some v \<longrightarrow> output_allowed k v) \<and>
     (\<forall>v. lookup args ''shell'' = Some v \<longrightarrow> v \<in> set allowed) \<and>
     surplus_keys args = []"
  unfolding run_case_eq output_check_eq [OF assms] shell_check_eq
  by (auto split: option.split)

text \<open>
  The loop over the sorted keys of an \<open>env\<close> step stops at the first key that is not
  allowed; when there is none, the flag tells whether \<open>name\<close> is among the keys.
\<close>

lemma env_keys_loop_eq:
  "env_keys_loop ks found =
     (case filter (\<lambda>k. k \<noteq> ''name'' \<and> k \<noteq> ''command'' \<and> k \<noteq> ''value'' \<and> k \<noteq> ''shell'') ks of
        k # _ \<Rightarrow> Inl (EnvUnsupportedKey k)
      | [] \<Rightarrow> Inr (found \<or> ''name'' \<in> set ks))"
  by (induction ks arbitrary: found) (auto split: list.split)

lemma filter_sort_keys:
  "filter P (sort (range_keys args)) = sort (filter P (range_keys args))"
  by (simp add: filter_sort)

lemma env_case_eq:
  "env_case args =
     (case sort (env_unsupported_keys args) of
        k # _ \<Rightarrow> Some (EnvUnsupportedKey k)
      | [] \<Rightarrow>
          if ''name'' \<notin> set (range_keys args) then Some EnvNameMissing
          else if ''value'' \<in> set (range_keys args) \<and> ''command'' \<in> set (range_keys args)
          then Some EnvValueAndCommand
          else if ''shell'' \<in> set (range_keys args) \<and> ''command'' \<notin> set (range_keys args)
          then Some EnvShellWithoutCommand
          else None)"
  unfolding env_case_def Let_def env_keys_loop_eq filter_sort_keys env_unsupported_keys_def
  by (auto simp add: SlicesContains_def split: list.split)

text \<open>What the closure \<open>extraArgs\<close> accepts when the map has one entry.\<close>

lemma extraArgs_single_entry:
  "extraArgs [(k, args)] = None \<longleftrightarrow>
     validStepName k \<and> (args = [] \<or> (\<exists>xs. args = [(''extra_args'', xs)]))"
proof (cases args)
  case Nil
  then show ?thesis
    by (simp add: extraArgs_def extraArgs_body_def range_keys_def)
next
  case (Cons a rest)
  show ?thesis
  proof (cases rest)
    case Nil
    with Cons show ?thesis
      by (cases a) (auto simp add: extraArgs_def extraArgs_body_def range_keys_def)
  next
    case (Cons b rest')
    with \<open>args = a # rest\<close> show ?thesis
      by (simp add: extraArgs_def extraArgs_body_def range_keys_def)
  qed
qed

lemma Validate_populated:
  assumes "Validate allowed s = None"
  shows "Key s \<noteq> None \<or> Map s \<noteq> [] \<or> CommandMap s \<noteq> [] \<or> StringVal s \<noteq> []"
  using assms by (auto simp add: Validate_def split: option.splits if_splits)

section \<open>The bare-name shape\<close>

text \<open>
  C2 (as amended). For a step whose \<open>Key\<close> is set, \<open>Validate\<close> succeeds if and only
  if the string is one of the nine names that \<open>validStepName\<close> lists: the seven builtin
  names and also \<open>env\<close> and \<open>multienv\<close>. For any other string it fails with the
  message that suggests that the \<open>run\<close> key was omitted, which quotes the string.
\<close>

theorem Validate_bare_name:
  assumes "Key s = Some k"
  shows "Validate allowed s =
     (if k \<in> {''init'', ''plan'', ''apply'', ''env'', ''multienv'', ''show'',
               ''policy_check'', ''import'', ''state_rm''}
      then None else Some (NotValidStepOmittedRun k))"
  using assms by (auto simp add: Validate_def validStep_def validStepName_def)

text \<open>The bare name \<open>plan\<close> is accepted, the bare command \<open>echo hi\<close> is not.\<close>

theorem Validate_bare_name_witness:
  "Validate [] (zero_Step\<lparr>Key := Some ''plan''\<rparr>) = None \<and>
   Validate [] (zero_Step\<lparr>Key := Some ''echo hi''\<rparr>) =
     Some (NotValidStepOmittedRun ''echo hi'')"
  using Validate_bare_name [of "zero_Step\<lparr>Key := Some ''plan''\<rparr>" "''plan''" "[]"]
    Validate_bare_name [of "zero_Step\<lparr>Key := Some ''echo hi''\<rparr>" "''echo hi''" "[]"]
  by simp

text \<open>
  C2 as stated fails: the bare name \<open>env\<close> is accepted, and it is not one of the
  seven builtin names.
\<close>

theorem Validate_bare_env_counterexample:
  "Validate [] \<lparr>Key = Some ''env'', CommandMap = [], Map = [], StringVal = []\<rparr> = None \<and>
   ''env'' \<notin> builtin_step_names"
  by (simp add: Validate_def validStep_def validStepName_def builtin_step_names_def)

section \<open>The extra-args shape\<close>

text \<open>
  C7 (the code at the failing input). The specification asks for exactly one attribute
  key, \<open>extra_args\<close>, and the comment in the source says that the arguments "should
  contain a single extra_args key"; the validator accepts the step \<open>init: {}\<close>, whose
  value has no attribute key at all.
\<close>

theorem Validate_extra_args_absent:
  "Validate allowed \<lparr>Key = None, CommandMap = [], Map = [(''init'', [])], StringVal = []\<rparr> = None"
  by (simp add: Validate_def extraArgs_def extraArgs_body_def range_keys_def validStepName_def)

text \<open>
  C10. In the extra-args shape the top-level key is checked against the nine names of
  \<open>validStepName\<close>: a sole key \<open>env\<close> or \<open>multienv\<close> with the single attribute
  \<open>extra_args\<close> is accepted, and a sole key \<open>run\<close> is rejected as not a valid step
  type, whatever its attributes.
\<close>

theorem Validate_extra_args_step_names:
  assumes "Key s = None"
  shows "(Map s = [(k, [(''extra_args'', xs)])] \<and> (k = ''env'' \<or> k = ''multienv'') \<longrightarrow>
            Validate allowed s = None) \<and>
         (Map s = [(''run'', args)] \<longrightarrow> Validate allowed s = Some (NotValidStep ''run''))"
  using assms
  by (auto simp add: Validate_def extraArgs_def extraArgs_body_def range_keys_def
      validStepName_def)

text \<open>The steps \<open>env: {extra_args: [a]}\<close>, \<open>multienv: {extra_args: [a]}\<close> and
  \<open>run: {extra_args: [a]}\<close>.\<close>

theorem Validate_extra_args_step_names_witness:
  "Validate [] \<lparr>Key = None, CommandMap = [],
      Map = [(''env'', [(''extra_args'', [''a''])])], StringVal = []\<rparr> = None \<and>
   Validate [] \<lparr>Key = None, CommandMap = [],
      Map = [(''multienv'', [(''extra_args'', [''a''])])], StringVal = []\<rparr> = None \<and>
   Validate [] \<lparr>Key = None, CommandMap = [],
      Map = [(''run'', [(''extra_args'', [''a''])])], StringVal = []\<rparr> =
     Some (NotValidStep ''run'')"
  using
    Validate_extra_args_step_names [of "\<lparr>Key = None, CommandMap = [],
      Map = [(''env'', [(''extra_args'', [''a''])])], StringVal = []\<rparr>"
      "''env''" "[''a'']" "[]"]
    Validate_extra_args_step_names [of "\<lparr>Key = None, CommandMap = [],
      Map = [(''multienv'', [(''extra_args'', [''a''])])], StringVal = []\<rparr>"
      "''multienv''" "[''a'']" "[]"]
    Validate_extra_args_step_names [of "\<lparr>Key = None, CommandMap = [],
      Map = [(''run'', [(''extra_args'', [''a''])])], StringVal = []\<rparr>"
      _ _ "[]" "[(''extra_args'', [''a''])]"]
  by simp

section \<open>The attribute-map shape\<close>

text \<open>
  C5. For a step with only \<open>CommandMap\<close> populated, whose sole key is \<open>run\<close> or
  \<open>multienv\<close>, \<open>Validate\<close> succeeds if and only if the attribute \<open>command\<close> is
  present, an \<open>output\<close> attribute is \<open>show\<close>, \<open>hide\<close> or \<open>strip_refreshing\<close> for
  \<open>run\<close> and \<open>show\<close> or \<open>hide\<close> for \<open>multienv\<close>, a \<open>shell\<close> attribute is in the
  allow-list, and there is no attribute beyond \<open>command\<close>, \<open>output\<close> and \<open>shell\<close>.
  Otherwise it fails with the error of the first rule broken, in this order; the error
  for surplus attributes lists the surplus keys sorted ascending and joined by commas.
\<close>

theorem Validate_run_multienv:
  assumes "Key s = None" and "Map s = []" and "CommandMap s = [(k, args)]"
    and "k = ''run'' \<or> k = ''multienv''"
  shows
    "(Validate allowed s = None \<longleftrightarrow>
        lookup args ''command'' \<noteq> None \<and>
        (\<forall>v. lookup args ''output'' = Some v \<longrightarrow> output_allowed k v) \<and>
        (\<forall>v. lookup args ''shell'' = Some v \<longrightarrow> v \<in> set allowed) \<and>
        surplus_keys args = []) \<and>
     (lookup args ''command'' = None \<longrightarrow> Validate allowed s = Some (CommandMissing k)) \<and>
     (lookup args ''command'' \<noteq> None \<and> lookup args ''output'' = Some out \<and>
        \<not> output_allowed k out \<longrightarrow>
        Validate allowed s =
          Some (if k = ''run'' then RunOutputInvalid else MultiEnvOutputInvalid)) \<and>
     (lookup args ''command'' \<noteq> None \<and>
        (\<forall>v. lookup args ''output'' = Some v \<longrightarrow> output_allowed k v) \<and>
        lookup args ''shell'' = Some sh \<and> sh \<notin> set allowed \<longrightarrow>
        Validate allowed s = Some (ShellUnsupported sh (strings_Join allowed '', ''))) \<and>
     (lookup args ''command'' \<noteq> None \<and>
        (\<forall>v. lookup args ''output'' = Some v \<longrightarrow> output_allowed k v) \<and>
        (\<forall>v. lookup args ''shell'' = Some v \<longrightarrow> v \<in> set allowed) \<and>
        surplus_keys args \<noteq> [] \<longrightarrow>
        Validate allowed s =
          Some (ExtraKeys k (strings_Join (sort (surplus_keys args)) '','')))"
proof -
  have not_env: "k \<noteq> ''env''" using assms(4) by auto
  have v: "Validate allowed s = run_case allowed k args"
    using assms(4) not_env
    by (simp add: Validate_CommandMap_single [OF assms(1-3)] single_entry)
  show ?thesis
    unfolding v run_case_eq output_check_eq [OF assms(4)] shell_check_eq
    by (auto split: option.split)
qed

text \<open>
  A \<open>run\<close> step with a command, an output mode and a shell; the specification's
  scenario with the output \<open>bogus\<close>; a \<open>multienv\<close> step with the output
  \<open>strip_refreshing\<close>; a \<open>run\<close> step with the surplus keys \<open>zeta\<close> and \<open>alpha\<close>.
\<close>

theorem Validate_run_multienv_witness:
  "Validate [''sh'', ''bash'']
     \<lparr>Key = None,
      CommandMap =
        [(''run'', [(''command'', ''echo hi''), (''output'', ''hide''), (''shell'', ''bash'')])],
      Map = [], StringVal = []\<rparr> = None \<and>
   Validate [''sh'', ''bash'']
     \<lparr>Key = None,
      CommandMap = [(''run'', [(''command'', ''echo hi''), (''output'', ''bogus'')])],
      Map = [], StringVal = []\<rparr> = Some RunOutputInvalid \<and>
   Validate [''sh'', ''bash'']
     \<lparr>Key = None,
      CommandMap =
        [(''multienv'', [(''command'', ''envs.sh''), (''output'', ''strip_refreshing'')])],
      Map = [], StringVal = []\<rparr> = Some MultiEnvOutputInvalid \<and>
   Validate [''sh'', ''bash'']
     \<lparr>Key = None,
      CommandMap = [(''run'', [(''zeta'', ''1''), (''command'', ''echo hi''), (''alpha'', ''2'')])],
      Map = [], StringVal = []\<rparr> = Some (ExtraKeys ''run'' ''alpha,zeta'')"
  using
    Validate_run_multienv [of
      "\<lparr>Key = None,
        CommandMap =
          [(''run'', [(''command'', ''echo hi''), (''output'', ''hide''), (''shell'', ''bash'')])],
        Map = [], StringVal = []\<rparr>"
      "''run''" "[(''command'', ''echo hi''), (''output'', ''hide''), (''shell'', ''bash'')]"
      "[''sh'', ''bash'']" "''hide''" "''bash''"]
    Validate_run_multienv [of
      "\<lparr>Key = None,
        CommandMap = [(''run'', [(''command'', ''echo hi''), (''output'', ''bogus'')])],
        Map = [], StringVal = []\<rparr>"
      "''run''" "[(''command'', ''echo hi''), (''output'', ''bogus'')]"
      "[''sh'', ''bash'']" "''bogus''" "''bash''"]
    Validate_run_multienv [of
      "\<lparr>Key = None,
        CommandMap =
          [(''multienv'', [(''command'', ''envs.sh''), (''output'', ''strip_refreshing'')])],
        Map = [], StringVal = []\<rparr>"
      "''multienv''" "[(''command'', ''envs.sh''), (''output'', ''strip_refreshing'')]"
      "[''sh'', ''bash'']" "''strip_refreshing''" "''bash''"]
    Validate_run_multienv [of
      "\<lparr>Key = None,
        CommandMap = [(''run'', [(''zeta'', ''1''), (''command'', ''echo hi''), (''alpha'', ''2'')])],
        Map = [], StringVal = []\<rparr>"
      "''run''" "[(''zeta'', ''1''), (''command'', ''echo hi''), (''alpha'', ''2'')]"
      "[''sh'', ''bash'']" "''hide''" "''bash''"]
  by (simp add: lookup_def surplus_keys_def range_keys_def output_allowed_def)

text \<open>
  C6. For a step with only \<open>CommandMap\<close> populated, whose sole key is \<open>env\<close>,
  \<open>Validate\<close> succeeds if and only if every attribute key is one of \<open>name\<close>,
  \<open>command\<close>, \<open>value\<close> and \<open>shell\<close>, the key \<open>name\<close> is present, \<open>value\<close> and
  \<open>command\<close> are not both present, and \<open>shell\<close> comes only with \<open>command\<close>.
  Otherwise it fails with the error of the first rule broken, in this order: it names
  the least key that is not allowed, or the missing \<open>name\<close>, or the pair \<open>value\<close> and
  \<open>command\<close>, or the pair \<open>shell\<close> and \<open>command\<close>.
\<close>

theorem Validate_env:
  assumes "Key s = None" and "Map s = []" and "CommandMap s = [(''env'', args)]"
  shows
    "(Validate allowed s = None \<longleftrightarrow>
        (\<forall>k \<in> set (range_keys args). k \<in> {''name'', ''command'', ''value'', ''shell''}) \<and>
        ''name'' \<in> set (range_keys args) \<and>
        \<not> (''value'' \<in> set (range_keys args) \<and> ''command'' \<in> set (range_keys args)) \<and>
        (''shell'' \<in> set (range_keys args) \<longrightarrow> ''command'' \<in> set (range_keys args))) \<and>
     (env_unsupported_keys args \<noteq> [] \<longrightarrow>
        Validate allowed s = Some (EnvUnsupportedKey (hd (sort (env_unsupported_keys args))))) \<and>
     (env_unsupported_keys args = [] \<and> ''name'' \<notin> set (range_keys args) \<longrightarrow>
        Validate allowed s = Some EnvNameMissing) \<and>
     (env_unsupported_keys args = [] \<and> ''name'' \<in> set (range_keys args) \<and>
        ''value'' \<in> set (range_keys args) \<and> ''command'' \<in> set (range_keys args) \<longrightarrow>
        Validate allowed s = Some EnvValueAndCommand) \<and>
     (env_unsupported_keys args = [] \<and> ''name'' \<in> set (range_keys args) \<and>
        ''shell'' \<in> set (range_keys args) \<and> ''command'' \<notin> set (range_keys args) \<longrightarrow>
        Validate allowed s = Some EnvShellWithoutCommand)"
proof -
  have v: "Validate allowed s = env_case args"
    by (simp add: Validate_CommandMap_single [OF assms] single_entry)
  have all: "(\<forall>k \<in> set (range_keys args). k \<in> {''name'', ''command'', ''value'', ''shell''})
      \<longleftrightarrow> env_unsupported_keys args = []"
    by (auto simp add: env_unsupported_keys_def filter_empty_conv)
  show ?thesis
  proof (cases "env_unsupported_keys args = []")
    case True
    then show ?thesis unfolding v all env_case_eq by simp
  next
    case False
    then obtain k ks where "sort (env_unsupported_keys args) = k # ks"
      by (metis sort_eq_Nil_iff list.exhaust)
    with False show ?thesis unfolding v all env_case_eq by simp
  qed
qed

text \<open>
  The specification's scenarios \<open>env: {name: test_value, value: value}\<close> and
  \<open>env: {name: x, value: v, command: c}\<close>, and one step for each other error.
\<close>

theorem Validate_env_witness:
  "Validate []
     \<lparr>Key = None, CommandMap = [(''env'', [(''name'', ''test_value''), (''value'', ''value'')])],
      Map = [], StringVal = []\<rparr> = None \<and>
   Validate []
     \<lparr>Key = None,
      CommandMap = [(''env'', [(''name'', ''x''), (''value'', ''v''), (''command'', ''c'')])],
      Map = [], StringVal = []\<rparr> = Some EnvValueAndCommand \<and>
   Validate []
     \<lparr>Key = None,
      CommandMap = [(''env'', [(''zeta'', ''1''), (''name'', ''x''), (''alpha'', ''2'')])],
      Map = [], StringVal = []\<rparr> = Some (EnvUnsupportedKey ''alpha'') \<and>
   Validate []
     \<lparr>Key = None, CommandMap = [(''env'', [(''value'', ''v'')])],
      Map = [], StringVal = []\<rparr> = Some EnvNameMissing \<and>
   Validate []
     \<lparr>Key = None, CommandMap = [(''env'', [(''name'', ''x''), (''shell'', ''bash'')])],
      Map = [], StringVal = []\<rparr> = Some EnvShellWithoutCommand"
  using
    Validate_env [of
      "\<lparr>Key = None, CommandMap = [(''env'', [(''name'', ''test_value''), (''value'', ''value'')])],
        Map = [], StringVal = []\<rparr>"
      "[(''name'', ''test_value''), (''value'', ''value'')]" "[]"]
    Validate_env [of
      "\<lparr>Key = None,
        CommandMap = [(''env'', [(''name'', ''x''), (''value'', ''v''), (''command'', ''c'')])],
        Map = [], StringVal = []\<rparr>"
      "[(''name'', ''x''), (''value'', ''v''), (''command'', ''c'')]" "[]"]
    Validate_env [of
      "\<lparr>Key = None,
        CommandMap = [(''env'', [(''zeta'', ''1''), (''name'', ''x''), (''alpha'', ''2'')])],
        Map = [], StringVal = []\<rparr>"
      "[(''zeta'', ''1''), (''name'', ''x''), (''alpha'', ''2'')]" "[]"]
    Validate_env [of
      "\<lparr>Key = None, CommandMap = [(''env'', [(''value'', ''v'')])],
        Map = [], StringVal = []\<rparr>"
      "[(''value'', ''v'')]" "[]"]
    Validate_env [of
      "\<lparr>Key = None, CommandMap = [(''env'', [(''name'', ''x''), (''shell'', ''bash'')])],
        Map = [], StringVal = []\<rparr>"
      "[(''name'', ''x''), (''shell'', ''bash'')]" "[]"]
  by (simp add: range_keys_def env_unsupported_keys_def)

section \<open>The normalizer\<close>

lemma surplus_Nil_lookup:
  assumes "surplus_keys args = []"
    and "k \<noteq> ''command''" and "k \<noteq> ''output''" and "k \<noteq> ''shell''"
  shows "lookup args k = None"
  using assms by (auto simp add: lookup_None_iff surplus_keys_def filter_empty_conv)

text \<open>
  C8. For an accepted step with only \<open>CommandMap\<close> populated, whose sole key is \<open>run\<close>
  or \<open>multienv\<close>, \<open>ToValid\<close> returns the step with that name, \<open>RunCommand\<close> set from
  \<open>command\<close>, \<open>RunShell\<close> from \<open>shell\<close> if present, and \<open>Output\<close> from \<open>output\<close> if
  present. When \<open>output\<close> is absent, \<open>Output\<close> is \<open>show\<close> for \<open>run\<close> and stays empty
  for \<open>multienv\<close>. The other fields are empty.
\<close>

theorem ToValid_run_multienv:
  assumes "Key s = None" and "Map s = []" and "CommandMap s = [(k, args)]"
    and "k = ''run'' \<or> k = ''multienv''"
    and "Validate allowed s = None"
  shows "\<exists>cmd. lookup args ''command'' = Some cmd \<and>
     ToValid s = Inr
       \<lparr>StepName = k, ExtraArgs = [], RunCommand = cmd, EnvVarName = [], EnvVarValue = [],
        Output = (case lookup args ''output'' of
                    Some v \<Rightarrow> v
                  | None \<Rightarrow> if k = ''run'' then ''show'' else []),
        RunShell = (case lookup args ''shell'' of Some v \<Rightarrow> v | None \<Rightarrow> [])\<rparr>"
proof -
  have "k \<noteq> ''env''" using assms(4) by auto
  with assms(4,5) have "run_case allowed k args = None"
    by (simp add: Validate_CommandMap_single [OF assms(1-3)] single_entry)
  then have cmd: "lookup args ''command'' \<noteq> None"
    and out: "\<And>v. lookup args ''output'' = Some v \<Longrightarrow> output_allowed k v"
    and sur: "surplus_keys args = []"
    unfolding run_case_None_iff [OF assms(4)] by blast+
  from cmd obtain c where c: "lookup args ''command'' = Some c" by auto
  have nm: "lookup args ''name'' = None" and vl: "lookup args ''value'' = None"
    using sur by (simp_all add: surplus_Nil_lookup)
  have "ToValid s = Inr (command_step k args)"
    using assms(1,3) by (simp add: ToValid_def)
  moreover have "command_step k args =
       \<lparr>StepName = k, ExtraArgs = [], RunCommand = c, EnvVarName = [], EnvVarValue = [],
        Output = (case lookup args ''output'' of
                    Some v \<Rightarrow> v
                  | None \<Rightarrow> if k = ''run'' then ''show'' else []),
        RunShell = (case lookup args ''shell'' of Some v \<Rightarrow> v | None \<Rightarrow> [])\<rparr>"
  proof (cases "lookup args ''output''")
    case None
    then show ?thesis
      using c nm vl by (simp add: command_step_def zero_valid_Step_def index_string_def Let_def)
  next
    case (Some v)
    with out have "output_allowed k v" by simp
    then have "v \<noteq> []" by (auto simp add: output_allowed_def)
    then show ?thesis
      using c nm vl Some
      by (simp add: command_step_def zero_valid_Step_def index_string_def Let_def)
  qed
  ultimately show ?thesis using c by simp
qed

text \<open>
  A \<open>run\<close> step without \<open>output\<close>, a \<open>run\<close> step with the output \<open>hide\<close>, and a
  \<open>multienv\<close> step without \<open>output\<close>.
\<close>

theorem ToValid_run_multienv_witness:
  "ToValid
     \<lparr>Key = None, CommandMap = [(''run'', [(''command'', ''echo hi''), (''shell'', ''bash'')])],
      Map = [], StringVal = []\<rparr> =
     Inr \<lparr>StepName = ''run'', ExtraArgs = [], RunCommand = ''echo hi'', EnvVarName = [],
          EnvVarValue = [], Output = ''show'', RunShell = ''bash''\<rparr> \<and>
   ToValid
     \<lparr>Key = None, CommandMap = [(''run'', [(''command'', ''echo hi''), (''output'', ''hide'')])],
      Map = [], StringVal = []\<rparr> =
     Inr \<lparr>StepName = ''run'', ExtraArgs = [], RunCommand = ''echo hi'', EnvVarName = [],
          EnvVarValue = [], Output = ''hide'', RunShell = []\<rparr> \<and>
   ToValid
     \<lparr>Key = None, CommandMap = [(''multienv'', [(''command'', ''envs.sh'')])],
      Map = [], StringVal = []\<rparr> =
     Inr \<lparr>StepName = ''multienv'', ExtraArgs = [], RunCommand = ''envs.sh'', EnvVarName = [],
          EnvVarValue = [], Output = [], RunShell = []\<rparr>"
  using
    ToValid_run_multienv [of
      "\<lparr>Key = None, CommandMap = [(''run'', [(''command'', ''echo hi''), (''shell'', ''bash'')])],
        Map = [], StringVal = []\<rparr>"
      "''run''" "[(''command'', ''echo hi''), (''shell'', ''bash'')]" "[''sh'', ''bash'']"]
    ToValid_run_multienv [of
      "\<lparr>Key = None, CommandMap = [(''run'', [(''command'', ''echo hi''), (''output'', ''hide'')])],
        Map = [], StringVal = []\<rparr>"
      "''run''" "[(''command'', ''echo hi''), (''output'', ''hide'')]" "[''sh'', ''bash'']"]
    ToValid_run_multienv [of
      "\<lparr>Key = None, CommandMap = [(''multienv'', [(''command'', ''envs.sh'')])],
        Map = [], StringVal = []\<rparr>"
      "''multienv''" "[(''command'', ''envs.sh'')]" "[''sh'', ''bash'']"]
  by (simp add: Validate_def envOrRunOrMultiEnvStep_def range_keys_def index_list_def
      lookup_def run_case_def output_check_def shell_check_def delete_def SlicesContains_def)

text \<open>\<open>ToValid\<close> returns a step whenever a field is populated.\<close>

lemma ToValid_returns:
  assumes "Key s \<noteq> None \<or> Map s \<noteq> [] \<or> CommandMap s \<noteq> [] \<or> StringVal s \<noteq> []"
  shows "\<exists>v. ToValid s = Inr v"
  using assms by (auto simp add: ToValid_def split: option.split list.split)

text \<open>The panic of \<open>ToValid\<close> is not reached on a step that \<open>Validate\<close> accepts.\<close>

lemma ToValid_total:
  assumes "Validate allowed s = None"
  shows "\<exists>v. ToValid s = Inr v"
  using ToValid_returns [OF Validate_populated [OF assms]] .

text \<open>
  C3 (the code at the failing input). The specification asks that every accepted step
  has exactly one canonical step, and the comment in \<open>ToValid\<close> says "After validation
  we assume there's only one key and it's a valid step name". \<open>Validate\<close> looks at
  \<open>Map\<close> before \<open>CommandMap\<close>, while \<open>ToValid\<close> looks at \<open>CommandMap\<close> before
  \<open>Map\<close>. A step that holds a valid extra-args map and also an attribute map with the
  two keys \<open>run\<close> and \<open>env\<close> is accepted on the strength of \<open>Map\<close> alone, and
  \<open>ToValid\<close> returns the entry of \<open>CommandMap\<close> that \<open>range\<close> visits first: the
  \<open>run\<close> step in one order of the map, the \<open>env\<close> step in the other. With the single
  key \<open>bogus\<close> in \<open>CommandMap\<close> the step returned has a name that is no step name.
\<close>

theorem ToValid_unvalidated_CommandMap:
  "Validate []
     \<lparr>Key = None,
      CommandMap = [(''run'', [(''command'', ''make'')]), (''env'', [(''name'', ''n'')])],
      Map = [(''init'', [(''extra_args'', [''-lock=false''])])],
      StringVal = []\<rparr> = None \<and>
   ToValid
     \<lparr>Key = None,
      CommandMap = [(''run'', [(''command'', ''make'')]), (''env'', [(''name'', ''n'')])],
      Map = [(''init'', [(''extra_args'', [''-lock=false''])])],
      StringVal = []\<rparr> =
     Inr \<lparr>StepName = ''run'', ExtraArgs = [], RunCommand = ''make'', EnvVarName = [],
          EnvVarValue = [], Output = ''show'', RunShell = []\<rparr> \<and>
   Validate []
     \<lparr>Key = None,
      CommandMap = [(''env'', [(''name'', ''n'')]), (''run'', [(''command'', ''make'')])],
      Map = [(''init'', [(''extra_args'', [''-lock=false''])])],
      StringVal = []\<rparr> = None \<and>
   ToValid
     \<lparr>Key = None,
      CommandMap = [(''env'', [(''name'', ''n'')]), (''run'', [(''command'', ''make'')])],
      Map = [(''init'', [(''extra_args'', [''-lock=false''])])],
      StringVal = []\<rparr> =
     Inr \<lparr>StepName = ''env'', ExtraArgs = [], RunCommand = [], EnvVarName = ''n'',
          EnvVarValue = [], Output = [], RunShell = []\<rparr> \<and>
   Validate []
     \<lparr>Key = None, CommandMap = [(''bogus'', [])],
      Map = [(''init'', [(''extra_args'', [''-lock=false''])])],
      StringVal = []\<rparr> = None \<and>
   ToValid
     \<lparr>Key = None, CommandMap = [(''bogus'', [])],
      Map = [(''init'', [(''extra_args'', [''-lock=false''])])],
      StringVal = []\<rparr> =
     Inr \<lparr>StepName = ''bogus'', ExtraArgs = [], RunCommand = [], EnvVarName = [],
          EnvVarValue = [], Output = [], RunShell = []\<rparr>"
  by (simp add: Validate_def extraArgs_def extraArgs_body_def range_keys_def
      validStepName_def ToValid_def command_step_def zero_valid_Step_def index_string_def
      lookup_def)

section \<open>The serializer\<close>

text \<open>
  C4 (as amended). \<open>marshalGeneric\<close> emits the first populated field in the order
  string-shorthand (\<open>StringVal\<close>), extra-args map (\<open>Map\<close>), attribute map
  (\<open>CommandMap\<close>), bare name (\<open>Key\<close>); a step with nothing populated serializes to
  nil; the error it returns is always nil.
\<close>

theorem marshalGeneric_precedence:
  "snd (marshalGeneric s) = None \<and>
   (StringVal s \<noteq> [] \<longrightarrow> fst (marshalGeneric s) = OfStringVal (StringVal s)) \<and>
   (StringVal s = [] \<and> Map s \<noteq> [] \<longrightarrow> fst (marshalGeneric s) = OfMap (Map s)) \<and>
   (StringVal s = [] \<and> Map s = [] \<and> CommandMap s \<noteq> [] \<longrightarrow>
      fst (marshalGeneric s) = OfCommandMap (CommandMap s)) \<and>
   (StringVal s = [] \<and> Map s = [] \<and> CommandMap s = [] \<longrightarrow>
      fst (marshalGeneric s) = (case Key s of Some k \<Rightarrow> OfKey k | None \<Rightarrow> Nil))"
  by (simp add: marshalGeneric_def split: option.split)

text \<open>A step with all four fields populated, and the steps left when the field emitted
  is emptied, down to the zero step.\<close>

theorem marshalGeneric_precedence_witness:
  "marshalGeneric \<lparr>Key = Some ''plan'',
      CommandMap = [(''run'', [(''command'', ''make'')])],
      Map = [(''init'', [(''extra_args'', [''-lock=false''])])],
      StringVal = [(''run'', ''echo hi'')]\<rparr> = (OfStringVal [(''run'', ''echo hi'')], None) \<and>
   marshalGeneric \<lparr>Key = Some ''plan'',
      CommandMap = [(''run'', [(''command'', ''make'')])],
      Map = [(''init'', [(''extra_args'', [''-lock=false''])])],
      StringVal = []\<rparr> = (OfMap [(''init'', [(''extra_args'', [''-lock=false''])])], None) \<and>
   marshalGeneric \<lparr>Key = Some ''plan'',
      CommandMap = [(''run'', [(''command'', ''make'')])],
      Map = [], StringVal = []\<rparr> = (OfCommandMap [(''run'', [(''command'', ''make'')])], None) \<and>
   marshalGeneric \<lparr>Key = Some ''plan'', CommandMap = [], Map = [], StringVal = []\<rparr> =
     (OfKey ''plan'', None) \<and>
   marshalGeneric zero_Step = (Nil, None)"
  using
    marshalGeneric_precedence [of "\<lparr>Key = Some ''plan'',
      CommandMap = [(''run'', [(''command'', ''make'')])],
      Map = [(''init'', [(''extra_args'', [''-lock=false''])])],
      StringVal = [(''run'', ''echo hi'')]\<rparr>"]
    marshalGeneric_precedence [of "\<lparr>Key = Some ''plan'',
      CommandMap = [(''run'', [(''command'', ''make'')])],
      Map = [(''init'', [(''extra_args'', [''-lock=false''])])],
      StringVal = []\<rparr>"]
    marshalGeneric_precedence [of "\<lparr>Key = Some ''plan'',
      CommandMap = [(''run'', [(''command'', ''make'')])],
      Map = [], StringVal = []\<rparr>"]
    marshalGeneric_precedence [of
      "\<lparr>Key = Some ''plan'', CommandMap = [], Map = [], StringVal = []\<rparr>"]
    marshalGeneric_precedence [of zero_Step]
  by (simp add: prod_eq_iff zero_Step_def)

text \<open>
  C4 as stated fails: with the attribute map and the extra-args map both populated, the
  extra-args map is emitted, where the stated order gives the attribute map.
\<close>

theorem marshalGeneric_precedence_counterexample:
  "fst (marshalGeneric \<lparr>Key = None,
      CommandMap = [(''run'', [(''command'', ''make'')])],
      Map = [(''init'', [(''extra_args'', [''-lock=false''])])],
      StringVal = []\<rparr>) = OfMap [(''init'', [(''extra_args'', [''-lock=false''])])] \<and>
   marshal_precedence_as_stated \<lparr>Key = None,
      CommandMap = [(''run'', [(''command'', ''make'')])],
      Map = [(''init'', [(''extra_args'', [''-lock=false''])])],
      StringVal = []\<rparr> = OfCommandMap [(''run'', [(''command'', ''make'')])]"
  by (simp add: marshalGeneric_def marshal_precedence_as_stated_def)

section \<open>The round trip\<close>

text \<open>Only the empty Go map holds the empty mapping.\<close>

lemma canon_empty_mapping: "canon x = NMap [] \<Longrightarrow> x = NMap []"
proof (cases x)
  case (NMap kvs)
  assume "canon x = NMap []"
  with NMap have "sort_key fst (map (map_prod id canon) kvs) = []" by simp
  then have "length kvs = 0" by (metis length_sort length_map list.size(3))
  with NMap show ?thesis by simp
qed simp_all

lemma same_value_populated:
  assumes "same_value (of_map elem m) x" and "x \<noteq> NMap []"
  shows "m \<noteq> []"
proof
  assume "m = []"
  with assms(1) have "canon x = NMap []" by (simp add: same_value_def of_map_def)
  with assms(2) show False using canon_empty_mapping by blast
qed

text \<open>
  A step decoded from a recognized value has one field populated, and
  \<open>marshalGeneric\<close> returns that field.
\<close>

lemma encode_Key: "encode (zero_Step\<lparr>Key := Some v\<rparr>) = Inr (NStr v)"
  by (simp add: encode_def marshalGeneric_def zero_Step_def)

lemma encode_Map:
  "m \<noteq> [] \<Longrightarrow> encode (zero_Step\<lparr>Map := m\<rparr>) = Inr (of_map (of_map (of_slice NStr)) m)"
  by (simp add: encode_def marshalGeneric_def zero_Step_def)

lemma encode_CommandMap:
  "m \<noteq> [] \<Longrightarrow> encode (zero_Step\<lparr>CommandMap := m\<rparr>) = Inr (of_map (of_map NStr) m)"
  by (simp add: encode_def marshalGeneric_def zero_Step_def)

lemma encode_StringVal:
  "m \<noteq> [] \<Longrightarrow> encode (zero_Step\<lparr>StringVal := m\<rparr>) = Inr (of_map NStr m)"
  by (simp add: encode_def marshalGeneric_def zero_Step_def)

text \<open>
  C1. For every structured value \<open>x\<close> that is syntactically recognized as one of the
  four step shapes, on which the decoding capability answers as specified,
  \<open>unmarshalGeneric\<close> decodes \<open>x\<close> into a fresh step without an error, and encoding
  that step (\<open>marshalGeneric\<close>, then the encoder) gives \<open>x\<close> again: the same value in
  the same shape, taken from the field that was decoded and not from the canonical
  step.
\<close>

theorem decode_encode:
  assumes rec: "recognized x" and int: "interprets u x"
  shows "\<exists>s y. unmarshalGeneric u zero_Step = Inr s \<and> encode s = Inr y \<and> same_value y x"
proof -
  from rec have ne: "x \<noteq> NMap []" by (simp add: recognized_def)
  show ?thesis
  proof (cases "to_string u")
    case (Inr v)
    with int have "x = NStr v" by (simp add: interprets_def)
    with Inr show ?thesis
      by (simp add: unmarshalGeneric_def encode_Key same_value_def)
  next
    case a: (Inl e1)
    with int have na: "\<not> has_shape TString x" by (simp add: interprets_def)
    show ?thesis
    proof (cases "to_map_map_slice u")
      case (Inr m)
      with int have sv: "same_value (of_map (of_map (of_slice NStr)) m) x"
        by (simp add: interprets_def)
      from same_value_populated [OF sv ne] a Inr sv show ?thesis
        by (simp add: unmarshalGeneric_def encode_Map)
    next
      case b: (Inl e2)
      with int have nb: "\<not> has_shape TMapMapSlice x" by (simp add: interprets_def)
      show ?thesis
      proof (cases "to_map_map u")
        case (Inr m)
        with int have sv: "same_value (of_map (of_map NStr) m) x"
          by (simp add: interprets_def)
        from same_value_populated [OF sv ne] a b Inr sv show ?thesis
          by (simp add: unmarshalGeneric_def encode_CommandMap)
      next
        case c: (Inl e3)
        with int have nc: "\<not> has_shape TMapMap x" by (simp add: interprets_def)
        show ?thesis
        proof (cases "to_map_string u")
          case (Inr m)
          with int have sv: "same_value (of_map NStr m) x"
            by (simp add: interprets_def)
          from same_value_populated [OF sv ne] a b c Inr sv show ?thesis
            by (simp add: unmarshalGeneric_def encode_StringVal)
        next
          case (Inl e4)
          with int have "\<not> has_shape TMapString x" by (simp add: interprets_def)
          with na nb nc rec show ?thesis by (simp add: recognized_def)
        qed
      qed
    qed
  qed
qed

text \<open>
  The attribute map \<open>env: {name: test_value, value: value}\<close> of the specification's
  scenario 3. The capability refuses it as a string and as an extra-args map, and gives
  it as an attribute map, here with the two attributes in the other order.
\<close>

theorem decode_encode_witness:
  "recognized (NMap [(''env'', NMap [(''name'', NStr ''test_value''), (''value'', NStr ''value'')])]) \<and>
   interprets
     \<lparr>to_string = Inl (Mismatch TString),
      to_map_map_slice = Inl (Mismatch TMapMapSlice),
      to_map_map = Inr [(''env'', [(''value'', ''value''), (''name'', ''test_value'')])],
      to_map_string = Inl (Mismatch TMapString)\<rparr>
     (NMap [(''env'', NMap [(''name'', NStr ''test_value''), (''value'', NStr ''value'')])]) \<and>
   (\<exists>s y.
      unmarshalGeneric
        \<lparr>to_string = Inl (Mismatch TString),
         to_map_map_slice = Inl (Mismatch TMapMapSlice),
         to_map_map = Inr [(''env'', [(''value'', ''value''), (''name'', ''test_value'')])],
         to_map_string = Inl (Mismatch TMapString)\<rparr> zero_Step = Inr s \<and>
      encode s = Inr y \<and>
      same_value y
        (NMap [(''env'', NMap [(''name'', NStr ''test_value''), (''value'', NStr ''value'')])]))"
proof -
  let ?x = "NMap [(''env'', NMap [(''name'', NStr ''test_value''), (''value'', NStr ''value'')])]"
  let ?u = "\<lparr>to_string = Inl (Mismatch TString),
      to_map_map_slice = Inl (Mismatch TMapMapSlice),
      to_map_map = Inr [(''env'', [(''value'', ''value''), (''name'', ''test_value'')])],
      to_map_string = Inl (Mismatch TMapString)\<rparr>"
  have r: "recognized ?x"
    by (simp add: recognized_def is_mapping_def is_string_def is_sequence_def)
  have i: "interprets ?u ?x"
    by (simp add: interprets_def is_mapping_def is_string_def is_sequence_def
        wf_map_map_def wf_map_def same_value_def of_map_def)
  from r i decode_encode [OF r i] show ?thesis by simp
qed

text \<open>
  What the code does on the empty mapping, which is not recognized: decoded as an
  extra-args map without entries it leaves the step with nothing populated, and the
  step is encoded as null.
\<close>

lemma empty_mapping_encoded_as_null:
  assumes "to_string u = Inl e" and "to_map_map_slice u = Inr []"
  shows "unmarshalGeneric u zero_Step = Inr zero_Step \<and> encode zero_Step = Inr NNull"
  using assms
  by (simp add: unmarshalGeneric_def encode_def marshalGeneric_def zero_Step_def)

section \<open>No shape matches\<close>

text \<open>
  C9 (as amended). \<open>unmarshalGeneric\<close> fails if and only if all four attempts fail
  (plain string, extra-args map, attribute map, string map), and it then returns the
  error of the fourth attempt, the string map, as the decoding capability gave it. The
  errors of the first three attempts are dropped. The attempts are made in this order:
  the first that succeeds sets its field of the receiver and nothing else.
\<close>

theorem unmarshalGeneric_failure:
  "((\<exists>e. unmarshalGeneric u s = Inl e) \<longleftrightarrow>
      (\<exists>e1 e2 e3 e4. to_string u = Inl e1 \<and> to_map_map_slice u = Inl e2 \<and>
         to_map_map u = Inl e3 \<and> to_map_string u = Inl e4)) \<and>
   (to_string u = Inl e1 \<and> to_map_map_slice u = Inl e2 \<and> to_map_map u = Inl e3 \<and>
      to_map_string u = Inl e4 \<longrightarrow> unmarshalGeneric u s = Inl e4) \<and>
   (to_string u = Inr v \<longrightarrow> unmarshalGeneric u s = Inr (s\<lparr>Key := Some v\<rparr>)) \<and>
   (to_string u = Inl e1 \<and> to_map_map_slice u = Inr m1 \<longrightarrow>
      unmarshalGeneric u s = Inr (s\<lparr>Map := m1\<rparr>)) \<and>
   (to_string u = Inl e1 \<and> to_map_map_slice u = Inl e2 \<and> to_map_map u = Inr m2 \<longrightarrow>
      unmarshalGeneric u s = Inr (s\<lparr>CommandMap := m2\<rparr>)) \<and>
   (to_string u = Inl e1 \<and> to_map_map_slice u = Inl e2 \<and> to_map_map u = Inl e3 \<and>
      to_map_string u = Inr m3 \<longrightarrow> unmarshalGeneric u s = Inr (s\<lparr>StringVal := m3\<rparr>))"
  by (auto simp add: unmarshalGeneric_def split: sum.splits)

text \<open>
  The four attempts on a sequence such as \<open>[plan]\<close>, which has none of the four
  shapes: each fails with the structural error of its type.
\<close>

theorem unmarshalGeneric_failure_witness:
  "unmarshalGeneric
     \<lparr>to_string = Inl (Mismatch TString),
      to_map_map_slice = Inl (Mismatch TMapMapSlice),
      to_map_map = Inl (Mismatch TMapMap),
      to_map_string = Inl (Mismatch TMapString)\<rparr> zero_Step = Inl (Mismatch TMapString)"
  using unmarshalGeneric_failure [of
      "\<lparr>to_string = Inl (Mismatch TString),
        to_map_map_slice = Inl (Mismatch TMapMapSlice),
        to_map_map = Inl (Mismatch TMapMap),
        to_map_string = Inl (Mismatch TMapString)\<rparr>" zero_Step
      "Mismatch TString" "Mismatch TMapMapSlice" "Mismatch TMapMap" "Mismatch TMapString"
      "[]" "[]" "[]" "[]"]
  by simp

text \<open>
  C9 as stated fails: the error for the sequence \<open>[plan]\<close> names the string map alone,
  not the four shapes attempted.
\<close>

theorem unmarshalGeneric_failure_counterexample:
  "interprets
     \<lparr>to_string = Inl (Mismatch TString),
      to_map_map_slice = Inl (Mismatch TMapMapSlice),
      to_map_map = Inl (Mismatch TMapMap),
      to_map_string = Inl (Mismatch TMapString)\<rparr> (NSeq [NStr ''plan'']) \<and>
   unmarshalGeneric
     \<lparr>to_string = Inl (Mismatch TString),
      to_map_map_slice = Inl (Mismatch TMapMapSlice),
      to_map_map = Inl (Mismatch TMapMap),
      to_map_string = Inl (Mismatch TMapString)\<rparr> zero_Step = Inl (Mismatch TMapString) \<and>
   shapes_named (Mismatch TMapString) \<noteq> {TString, TMapMapSlice, TMapMap, TMapString}"
  by (auto simp add: interprets_def is_string_def is_mapping_def unmarshalGeneric_def
      shapes_named_def)

end
